theory Spec2Isabelle
  imports Complex_Main
begin

section \<open>The Boolean-circuit synthesizer (boolean.py)\<close>

subsection \<open>Gates and the state of a BooleanCircuit object\<close>

text \<open>
  A gate is the dictionary \<^verbatim>\<open>{"id": out, "type": ..., "in": [...]}\<close> that the four
  gate makers append to \<^verbatim>\<open>self.gates\<close>. Wire ids are Python integers.
\<close>

datatype gate_type = AND | OR | NXOR | NOT

record gate =
  gid :: int
  gtype :: gate_type
  gin :: "int list"

text \<open>
  The fields of \<^verbatim>\<open>BooleanCircuit\<close>. The generator \<^verbatim>\<open>self.gen\<close> is represented by the
  value of its local variable \<^verbatim>\<open>gate_n\<close>: each \<^verbatim>\<open>__next__\<close> increments it and yields the
  incremented value.
\<close>

record boolean_circuit =
  bits :: int
  set_size :: int
  gen :: int
  inputs_alice :: "int list"
  inputs_bob :: "int list"
  outputs :: "int list"
  gates :: "gate list"

definition init_circuit :: "int \<Rightarrow> int \<Rightarrow> boolean_circuit" where
  "init_circuit b k =
     \<lparr>bits = b, set_size = k, gen = 2 * b,
      inputs_alice = [], inputs_bob = [], outputs = [], gates = []\<rparr>"

definition get_next_id :: "boolean_circuit \<Rightarrow> int \<times> boolean_circuit" where
  "get_next_id s = (gen s + 1, s\<lparr>gen := gen s + 1\<rparr>)"

text \<open>The common body of \<^verbatim>\<open>an\<close>, \<^verbatim>\<open>nxor\<close>, \<^verbatim>\<open>no\<close> and \<^verbatim>\<open>orr\<close>.\<close>

definition add_gate ::
  "gate_type \<Rightarrow> int list \<Rightarrow> bool \<Rightarrow> boolean_circuit \<Rightarrow> int \<times> boolean_circuit" where
  "add_gate t ins output s =
     (let (out, s) = get_next_id s;
          s = s\<lparr>gates := gates s @ [\<lparr>gid = out, gtype = t, gin = ins\<rparr>]\<rparr>;
          s = (if output then s\<lparr>outputs := outputs s @ [out]\<rparr> else s)
      in (out, s))"

definition an :: "int \<Rightarrow> int \<Rightarrow> bool \<Rightarrow> boolean_circuit \<Rightarrow> int \<times> boolean_circuit" where
  "an a b output s = add_gate AND [a, b] output s"

definition nxor :: "int \<Rightarrow> int \<Rightarrow> bool \<Rightarrow> boolean_circuit \<Rightarrow> int \<times> boolean_circuit" where
  "nxor a b output s = add_gate NXOR [a, b] output s"

definition no :: "int \<Rightarrow> bool \<Rightarrow> boolean_circuit \<Rightarrow> int \<times> boolean_circuit" where
  "no a output s = add_gate NOT [a] output s"

definition orr :: "int \<Rightarrow> int \<Rightarrow> bool \<Rightarrow> boolean_circuit \<Rightarrow> int \<times> boolean_circuit" where
  "orr a b output s = add_gate OR [a, b] output s"

subsection \<open>The comparator block\<close>

text \<open>
  \<^verbatim>\<open>circuit_block\<close>, one gate per line, in the order in which Python evaluates the
  nested calls (arguments left to right, then the call).
\<close>

definition circuit_block ::
  "int \<Rightarrow> int \<Rightarrow> int \<Rightarrow> int \<Rightarrow> int \<Rightarrow> int \<Rightarrow> int \<Rightarrow> int \<Rightarrow> boolean_circuit
     \<Rightarrow> (int \<times> int \<times> int \<times> int) \<times> boolean_circuit" where
  "circuit_block a3 a2 a1 a0 b3 b2 b1 b0 s =
     (let (x3, s) = nxor a3 b3 False s;
          (x2, s) = nxor a2 b2 False s;
          (x1, s) = nxor a1 b1 False s;
          (x0, s) = nxor a0 b0 False s;
          (nb0, s) = no b0 False s;
          (nb1, s) = no b1 False s;
          (nb2, s) = no b2 False s;
          (nb3, s) = no b3 False s;
          (t1, s) = an x3 x2 False s;
          (t2, s) = an x1 x0 False s;
          (z, s) = an t1 t2 False s;
          (u1, s) = an a3 nb3 False s;
          (u2, s) = an x3 a2 False s;
          (u3, s) = an u2 nb2 False s;
          (u4, s) = orr u1 u3 False s;
          (u5, s) = an x3 x2 False s;
          (u6, s) = an a1 nb1 False s;
          (u7, s) = an u5 u6 False s;
          (u8, s) = orr u4 u7 False s;
          (u9, s) = an x3 x2 False s;
          (u10, s) = an u9 x1 False s;
          (u11, s) = an u10 a0 False s;
          (u12, s) = an u11 nb0 False s;
          (x, s) = orr u8 u12 False s;
          (x, s) = orr x z False s;
          (nx, s) = no x False s;
          (z3, s) = orr a3 b3 True s;
          (v1, s) = an x a2 False s;
          (v2, s) = an nx b2 False s;
          (z2, s) = orr v1 v2 True s;
          (v3, s) = an x a1 False s;
          (v4, s) = an nx b1 False s;
          (z1, s) = orr v3 v4 True s;
          (v5, s) = an x a0 False s;
          (v6, s) = an nx b0 False s;
          (z0, s) = orr v5 v6 True s
      in ((z3, z2, z1, z0), s))"

subsection \<open>Boolean semantics of a gate list\<close>

text \<open>
  Modelled from the spec: the evaluator is not part of the synthesizer. A wire carries
  a bit; the gates are evaluated in list order, each one storing on the wire named by
  its id the value of its Boolean function (NXOR is logical equivalence) on the wires
  named by its inputs.
\<close>

fun gate_value :: "gate_type \<Rightarrow> bool list \<Rightarrow> bool" where
  "gate_value AND [p, q] = (p \<and> q)"
| "gate_value OR [p, q] = (p \<or> q)"
| "gate_value NXOR [p, q] = (p = q)"
| "gate_value NOT [p] = (\<not> p)"
| "gate_value _ _ = False"

definition eval_gate :: "(int \<Rightarrow> bool) \<Rightarrow> gate \<Rightarrow> (int \<Rightarrow> bool)" where
  "eval_gate e g = e(gid g := gate_value (gtype g) (map e (gin g)))"

definition eval_gates :: "gate list \<Rightarrow> (int \<Rightarrow> bool) \<Rightarrow> (int \<Rightarrow> bool)" where
  "eval_gates gs e = foldl eval_gate e gs"

text \<open>The unsigned value of a bit list, most significant bit first.\<close>

definition bits_value :: "bool list \<Rightarrow> nat" where
  "bits_value bs = foldl (\<lambda>acc b. 2 * acc + (if b then 1 else 0)) 0 bs"


subsection \<open>Python values used by the synthesizer and the harness\<close>

text \<open>
  \<^verbatim>\<open>str\<close> of an integer: its decimal digits, with a minus sign when negative.
\<close>

definition digit_char :: "nat \<Rightarrow> char" where
  "digit_char d = ''0123456789'' ! d"

function str_nat :: "nat \<Rightarrow> string" where
  "str_nat n = (if n < 10 then [digit_char n] else str_nat (n div 10) @ [digit_char (n mod 10)])"
  by pat_completeness auto
termination
  by (relation "measure (\<lambda>n. n)") auto

definition str_int :: "int \<Rightarrow> string" where
  "str_int i = (if i < 0 then CHR ''-'' # str_nat (nat (- i)) else str_nat (nat i))"

text \<open>
  Python's true division \<^verbatim>\<open>x / y\<close> of two integers, as the exact quotient. The
  operands in this program are far below \<open>2 ^ 53\<close>, where the float quotient compares
  equal to an integer exactly when the exact quotient does, and where \<^verbatim>\<open>int(n / 2)\<close>
  of an even \<open>n\<close> is exact. The divisors are \<open>i + 1\<close> with \<open>i \<ge> 0\<close>, and \<open>2\<close>, never zero.
\<close>

definition true_div :: "int \<Rightarrow> int \<Rightarrow> rat" where
  "true_div x y = of_int x / of_int y"

text \<open>\<^verbatim>\<open>int(q)\<close> of a float truncates towards zero.\<close>

definition py_int :: "rat \<Rightarrow> int" where
  "py_int q = (if q < 0 then - \<lfloor>- q\<rfloor> else \<lfloor>q\<rfloor>)"

text \<open>
  \<^verbatim>\<open>os.path.join\<close> on POSIX: a component that starts with the separator replaces what
  came before; otherwise it is appended, after a separator unless the path so far is
  empty or already ends with one.
\<close>

definition join_step :: "string \<Rightarrow> string \<Rightarrow> string" where
  "join_step path b =
     (if b \<noteq> [] \<and> hd b = CHR ''/'' then b
      else if path = [] \<or> last path = CHR ''/'' then path @ b
      else path @ ''/'' @ b)"

definition path_join :: "string \<Rightarrow> string list \<Rightarrow> string" where
  "path_join a ps = foldl join_step a ps"

subsection \<open>Assembling the complete circuit\<close>

text \<open>
  The local variables of the chaining loop of \<^verbatim>\<open>complete_circuit\<close>: the two 4-bit
  operands of the next block, the flag \<^verbatim>\<open>alice\<close>, and the object itself.
\<close>

record chain_vars =
  cur_a :: "int \<times> int \<times> int \<times> int"
  cur_b :: "int \<times> int \<times> int \<times> int"
  alice :: bool
  self :: boolean_circuit

text \<open>One iteration of \<^verbatim>\<open>for i in range(n-2)\<close> (lines 124 to 136).\<close>

definition loop_body :: "int \<Rightarrow> nat \<Rightarrow> chain_vars \<Rightarrow> chain_vars" where
  "loop_body n i v =
     (let (a3, a2, a1, a0) = cur_a v;
          (b3, b2, b1, b0) = cur_b v;
          (a, s) = circuit_block a3 a2 a1 a0 b3 b2 b1 b0 (self v);
          (b3, s) = get_next_id s;
          (b2, s) = get_next_id s;
          (b1, s) = get_next_id s;
          (b0, s) = get_next_id s;
          s = (if alice v then s\<lparr>inputs_alice := inputs_alice s @ [b3, b2, b1, b0]\<rparr>
               else s\<lparr>inputs_bob := inputs_bob s @ [b3, b2, b1, b0]\<rparr>);
          al = (if true_div (n - 2) (int i + 1) = 2 then \<not> alice v else alice v)
      in \<lparr>cur_a = a, cur_b = (b3, b2, b1, b0), alice = al, self = s\<rparr>)"

text \<open>Lines 116 to 121: the loop variables before the first iteration.\<close>

definition chain_init :: "boolean_circuit \<Rightarrow> chain_vars" where
  "chain_init s0 =
     (let s = s0\<lparr>inputs_alice := inputs_alice s0 @ [1, 2, 3, 4]\<rparr>;
          s = s\<lparr>inputs_bob := inputs_bob s @ [5, 6, 7, 8]\<rparr>
      in \<lparr>cur_a = (1, 2, 3, 4), cur_b = (5, 6, 7, 8), alice = True, self = s\<rparr>)"

text \<open>Lines 114 to 139: the initial inputs, the loop, and the last block.\<close>

definition assemble :: "boolean_circuit \<Rightarrow> boolean_circuit" where
  "assemble s0 =
     (let n = set_size s0 * 2;
          v = fold (loop_body n) [0..<nat (n - 2)] (chain_init s0);
          (a3, a2, a1, a0) = cur_a v;
          (b3, b2, b1, b0) = cur_b v
      in snd (circuit_block a3 a2 a1 a0 b3 b2 b1 b0 (self v)))"

text \<open>The dictionary \<^verbatim>\<open>json_format\<close> (lines 143 to 154).\<close>

record circuit_entry =
  c_id :: string
  c_alice :: "int list"
  c_bob :: "int list"
  c_out :: "int list"
  c_gates :: "gate list"

record json_circuit =
  name :: string
  circuits :: "circuit_entry list"

text \<open>\<^verbatim>\<open>xs[-4:]\<close>: the last four elements, or all of them when there are fewer.\<close>

definition last4 :: "'a list \<Rightarrow> 'a list" where
  "last4 xs = drop (length xs - 4) xs"

definition json_format :: "boolean_circuit \<Rightarrow> json_circuit" where
  "json_format s =
     (let n = set_size s * 2
      in \<lparr>name = ''max'',
          circuits =
            [\<lparr>c_id = str_int (bits s) @ ''-bits MAX with '' @ str_int n @ '' elements'',
              c_alice = inputs_alice s, c_bob = inputs_bob s,
              c_out = last4 (outputs s), c_gates = gates s\<rparr>]\<rparr>)"

text \<open>The circuit that a fresh \<^verbatim>\<open>BooleanCircuit(bits, set_size)\<close> describes.\<close>

definition synthesized :: "int \<Rightarrow> int \<Rightarrow> circuit_entry" where
  "synthesized b k = hd (circuits (json_format (assemble (init_circuit b k))))"

subsection \<open>The chaining loop with the switch test in integer division\<close>

text \<open>
  The spec describes the test of line 135 as \<^verbatim>\<open>(n-2)/(i+1) == 2\<close> "(integer division
  equivalence)". These three definitions are \<open>loop_body\<close>, \<open>assemble\<close> and
  \<open>synthesized\<close> with that one test taken in integer division, to be compared with the
  source's.
\<close>

definition loop_body_floor :: "int \<Rightarrow> nat \<Rightarrow> chain_vars \<Rightarrow> chain_vars" where
  "loop_body_floor n i v =
     (let (a3, a2, a1, a0) = cur_a v;
          (b3, b2, b1, b0) = cur_b v;
          (a, s) = circuit_block a3 a2 a1 a0 b3 b2 b1 b0 (self v);
          (b3, s) = get_next_id s;
          (b2, s) = get_next_id s;
          (b1, s) = get_next_id s;
          (b0, s) = get_next_id s;
          s = (if alice v then s\<lparr>inputs_alice := inputs_alice s @ [b3, b2, b1, b0]\<rparr>
               else s\<lparr>inputs_bob := inputs_bob s @ [b3, b2, b1, b0]\<rparr>);
          al = (if (n - 2) div (int i + 1) = 2 then \<not> alice v else alice v)
      in \<lparr>cur_a = a, cur_b = (b3, b2, b1, b0), alice = al, self = s\<rparr>)"

definition assemble_floor :: "boolean_circuit \<Rightarrow> boolean_circuit" where
  "assemble_floor s0 =
     (let n = set_size s0 * 2;
          v = fold (loop_body_floor n) [0..<nat (n - 2)] (chain_init s0);
          (a3, a2, a1, a0) = cur_a v;
          (b3, b2, b1, b0) = cur_b v
      in snd (circuit_block a3 a2 a1 a0 b3 b2 b1 b0 (self v)))"

definition synthesized_floor :: "int \<Rightarrow> int \<Rightarrow> circuit_entry" where
  "synthesized_floor b k = hd (circuits (json_format (assemble_floor (init_circuit b k))))"

text \<open>
  The file system: the text of each existing file, by path. \<^verbatim>\<open>json.dump\<close> is a
  parameter \<open>dumps\<close>, the text it writes for a value.
\<close>

type_synonym file_system = "string \<rightharpoonup> string"

definition complete_circuit ::
  "(json_circuit \<Rightarrow> string) \<Rightarrow> string \<Rightarrow> boolean_circuit \<Rightarrow> file_system
     \<Rightarrow> string \<times> file_system" where
  "complete_circuit dumps cwd s0 fs =
     (let n = set_size s0 * 2;
          s = assemble s0;
          output_file = path_join cwd [''circuits'',
             ''max_'' @ str_int (bits s) @ ''bits_'' @ str_int (py_int (true_div n 2))
               @ ''items.json'']
      in (output_file, fs(output_file \<mapsto> dumps (json_format s))))"


section \<open>The harness (format.py)\<close>

subsection \<open>Exceptions\<close>

text \<open>
  \<^verbatim>\<open>exit(1)\<close> raises \<^verbatim>\<open>SystemExit\<close> with the exit code; the other constructors are the
  exceptions that the modelled statements can raise.
\<close>

datatype py_error = SystemExit int | ValueError | IndexError | ZeroDivisionError

subsection \<open>Reading an input file (lines 122 to 140, and 142 to 160)\<close>

text \<open>
  \<^verbatim>\<open>fin.readlines()\<close>: the text cut after every newline, each line keeping its newline.
  (Text mode turns other line endings into a newline first; no digit is made or lost.)
\<close>

fun readlines_from :: "string \<Rightarrow> string \<Rightarrow> string list" where
  "readlines_from cur [] = (if cur = [] then [] else [cur])"
| "readlines_from cur (c # cs) =
     (if c = CHR 0x0A then (cur @ [c]) # readlines_from [] cs
      else readlines_from (cur @ [c]) cs)"

definition readlines :: "string \<Rightarrow> string list" where
  "readlines content = readlines_from [] content"

text \<open>\<^verbatim>\<open>int(character)\<close> of a one-digit string.\<close>

definition int_of_digit :: "char \<Rightarrow> int" where
  "int_of_digit c = int (of_char c) - 48"

definition keep_bit :: "char \<Rightarrow> int list \<Rightarrow> int list" where
  "keep_bit character bs =
     (if character = CHR ''1'' \<or> character = CHR ''0'' then bs @ [int_of_digit character]
      else bs)"

definition collect_bits :: "string \<Rightarrow> int list" where
  "collect_bits content = fold (\<lambda>line bs. fold keep_bit line bs) (readlines content) []"

text \<open>\<^verbatim>\<open>while len(bits_a) < set_size * bits: bits_a.append(0)\<close>\<close>

function pad_loop :: "int \<Rightarrow> int list \<Rightarrow> int list" where
  "pad_loop target bs = (if int (length bs) < target then pad_loop target (bs @ [0]) else bs)"
  by pat_completeness auto
termination
  by (relation "measure (\<lambda>(target, bs). nat (target - int (length bs)))") auto

text \<open>
  \<^verbatim>\<open>while len(bits_a) > set_size * bits: bits_a.pop()\<close>; \<^verbatim>\<open>pop\<close> on an empty list raises
  \<^verbatim>\<open>IndexError\<close>.
\<close>

function pop_loop :: "int \<Rightarrow> int list \<Rightarrow> py_error + int list" where
  "pop_loop target bs =
     (if int (length bs) > target
      then (if bs = [] then Inl IndexError else pop_loop target (butlast bs))
      else Inr bs)"
  by pat_completeness auto
termination
  by (relation "measure (\<lambda>(target, bs). length bs)") auto

definition read_input :: "int \<Rightarrow> int \<Rightarrow> string \<Rightarrow> py_error + int list" where
  "read_input nbits k content =
     (let bits_a = collect_bits content
      in if nbits = 0 then Inl ZeroDivisionError
         else if int (length bits_a) mod nbits \<noteq> 0 then Inl (SystemExit 1)
         else pop_loop (k * nbits) (pad_loop (k * nbits) bits_a))"

subsection \<open>The plaintext reference \<^verbatim>\<open>traditional_compute\<close>\<close>

text \<open>
  \<^verbatim>\<open>int(s, 2)\<close> on the strings that joining \<^verbatim>\<open>str\<close> of integers can give: an optional
  sign followed by at least one binary digit; anything else raises \<^verbatim>\<open>ValueError\<close>.
\<close>

definition int_base2 :: "string \<Rightarrow> py_error + int" where
  "int_base2 s =
     (let (neg, ds) =
            (case s of
               [] \<Rightarrow> (False, s)
             | c # r \<Rightarrow> if c = CHR ''-'' then (True, r)
                        else if c = CHR ''+'' then (False, r) else (False, s))
      in if ds = [] \<or> \<not> list_all (\<lambda>c. c = CHR ''0'' \<or> c = CHR ''1'') ds then Inl ValueError
         else Inr ((if neg then - 1 else 1)
                   * foldl (\<lambda>acc c. 2 * acc + (if c = CHR ''1'' then 1 else 0)) 0 ds))"

text \<open>\<^verbatim>\<open>range(i, stop, step)\<close> for a positive step.\<close>

function range_step :: "nat \<Rightarrow> nat \<Rightarrow> nat \<Rightarrow> nat list" where
  "range_step i stop step =
     (if 0 < step \<and> i < stop then i # range_step (i + step) stop step else [])"
  by pat_completeness auto
termination
  by (relation "measure (\<lambda>(i, stop, step). stop - i)") auto

text \<open>
  \<^verbatim>\<open>int("".join([str(s) for s in a[i:i+bits]]), 2)\<close>. (The parameters \<^verbatim>\<open>bits\<close> and
  \<^verbatim>\<open>set_size\<close> of the harness are written \<open>nbits\<close> and \<open>k\<close>, the two names being
  fields of the circuit object.)
\<close>

definition group_value :: "int list \<Rightarrow> nat \<Rightarrow> int \<Rightarrow> py_error + int" where
  "group_value a i nbits = int_base2 (concat (map str_int (take (nat nbits) (drop i a))))"

fun groups_loop ::
  "int list \<Rightarrow> int list \<Rightarrow> int \<Rightarrow> nat list \<Rightarrow> int list \<Rightarrow> py_error + int list" where
  "groups_loop a b nbits [] ss = Inr ss"
| "groups_loop a b nbits (i # rest) ss =
     (case group_value a i nbits of
        Inl e \<Rightarrow> Inl e
      | Inr x \<Rightarrow>
          (case group_value b i nbits of
             Inl e \<Rightarrow> Inl e
           | Inr y \<Rightarrow> groups_loop a b nbits rest (ss @ [x, y])))"

text \<open>\<^verbatim>\<open>max(ss)\<close> raises \<^verbatim>\<open>ValueError\<close> on an empty list.\<close>

fun py_max :: "int list \<Rightarrow> py_error + int" where
  "py_max [] = Inl ValueError"
| "py_max (x # xs) = Inr (fold max xs x)"

text \<open>
  \<^verbatim>\<open>f"{c:0{width}b}"\<close>: the binary digits of the magnitude, after the sign if any, with
  zeros between them up to the width.
\<close>

function bin_nat :: "nat \<Rightarrow> string" where
  "bin_nat n = (if n < 2 then [digit_char n] else bin_nat (n div 2) @ [digit_char (n mod 2)])"
  by pat_completeness auto
termination
  by (relation "measure (\<lambda>n. n)") auto

definition format_bin :: "int \<Rightarrow> int \<Rightarrow> string" where
  "format_bin width c =
     (let ds = bin_nat (nat \<bar>c\<bar>);
          sign = (if c < 0 then ''-'' else [])
      in sign @ replicate (nat width - length sign - length ds) (CHR ''0'') @ ds)"

definition traditional_compute :: "int list \<Rightarrow> int list \<Rightarrow> int \<Rightarrow> py_error + string" where
  "traditional_compute a b nbits =
     (if nbits = 0 then Inl ValueError
      else case groups_loop a b nbits
                  (if nbits < 0 then [] else range_step 0 (length a) (nat nbits)) [] of
             Inl e \<Rightarrow> Inl e
           | Inr ss \<Rightarrow> (case py_max ss of Inl e \<Rightarrow> Inl e | Inr c \<Rightarrow> Inr (format_bin nbits c)))"

subsection \<open>\<^verbatim>\<open>main\<close> up to the start of the protocol, and the script entry point\<close>

text \<open>\<^verbatim>\<open>" ".join([b for b in s])\<close>\<close>

fun join_space :: "string \<Rightarrow> string" where
  "join_space [] = []"
| "join_space [c] = [c]"
| "join_space (c # cs) = c # CHR '' '' # join_space cs"

text \<open>
  What \<^verbatim>\<open>main\<close> holds when it starts the protocol (line 166): \<^verbatim>\<open>circuit\<close>,
  \<^verbatim>\<open>bits_a\<close>, \<^verbatim>\<open>bits_b\<close> and \<^verbatim>\<open>correct_result\<close>.
\<close>

record started =
  st_circuit :: string
  st_bits_a :: "int list"
  st_bits_b :: "int list"
  st_correct_result :: string

text \<open>
  Lines 106 to 110. \<^verbatim>\<open>os.path.exists\<close> is membership in the domain of the file system.
\<close>

definition circuit_path :: "string \<Rightarrow> int \<Rightarrow> int \<Rightarrow> string" where
  "circuit_path cwd b k =
     path_join cwd [''circuits'',
        ''max_'' @ str_int b @ ''bits_'' @ str_int k @ ''items.json'']"

definition ensure_circuit ::
  "(json_circuit \<Rightarrow> string) \<Rightarrow> string \<Rightarrow> int \<Rightarrow> int \<Rightarrow> file_system
     \<Rightarrow> string \<times> file_system" where
  "ensure_circuit dumps cwd b k fs =
     (let circ = circuit_path cwd b k
      in if circ \<notin> dom fs then complete_circuit dumps cwd (init_circuit b k) fs
         else (circ, fs))"

text \<open>
  Lines 106 to 163. The result is paired with the file system as \<^verbatim>\<open>main\<close> leaves it.
\<close>

definition main ::
  "(json_circuit \<Rightarrow> string) \<Rightarrow> string \<Rightarrow> int \<Rightarrow> int \<Rightarrow> string \<Rightarrow> string \<Rightarrow> file_system
     \<Rightarrow> (py_error + started) \<times> file_system" where
  "main dumps cwd b k alice_input_file bob_input_file fs0 =
     (let (circ, fs) = ensure_circuit dumps cwd b k fs0
      in if alice_input_file \<notin> dom fs then (Inl (SystemExit 1), fs)
         else if bob_input_file \<notin> dom fs then (Inl (SystemExit 1), fs)
         else case read_input b k (the (fs alice_input_file)) of
                Inl e \<Rightarrow> (Inl e, fs)
              | Inr xa \<Rightarrow>
                  (case read_input b k (the (fs bob_input_file)) of
                     Inl e \<Rightarrow> (Inl e, fs)
                   | Inr xb \<Rightarrow>
                       (case traditional_compute xa xb b of
                          Inl e \<Rightarrow> (Inl e, fs)
                        | Inr r \<Rightarrow>
                            (Inr \<lparr>st_circuit = circ, st_bits_a = xa, st_bits_b = xb,
                                  st_correct_result = join_space r\<rparr>, fs))))"

text \<open>Lines 225 to 232, after \<^verbatim>\<open>parse_args\<close>.\<close>

definition script ::
  "(json_circuit \<Rightarrow> string) \<Rightarrow> string \<Rightarrow> int \<Rightarrow> string \<Rightarrow> string \<Rightarrow> file_system
     \<Rightarrow> (py_error + started) \<times> file_system" where
  "script dumps cwd k alice_file bob_file fs =
     (if k < 1 \<or> k > 2 ^ 4 then (Inl (SystemExit 1), fs)
      else main dumps cwd 4 k alice_file bob_file fs)"


section \<open>Notions used to state and prove the properties\<close>

subsection \<open>The gates of one comparator block, written out\<close>

text \<open>
  The 36 gates that one call of \<open>circuit_block\<close> appends when the counter stands
  at \<open>c\<close> (lemma \<open>circuit_block_eq\<close> below).
\<close>

definition block_gates ::
  "int \<Rightarrow> int \<Rightarrow> int \<Rightarrow> int \<Rightarrow> int \<Rightarrow> int \<Rightarrow> int \<Rightarrow> int \<Rightarrow> int \<Rightarrow> gate list" where
  "block_gates c a3 a2 a1 a0 b3 b2 b1 b0 =
    [\<lparr>gid = c + 1, gtype = NXOR, gin = [a3, b3]\<rparr>,
     \<lparr>gid = c + 2, gtype = NXOR, gin = [a2, b2]\<rparr>,
     \<lparr>gid = c + 3, gtype = NXOR, gin = [a1, b1]\<rparr>,
     \<lparr>gid = c + 4, gtype = NXOR, gin = [a0, b0]\<rparr>,
     \<lparr>gid = c + 5, gtype = NOT, gin = [b0]\<rparr>,
     \<lparr>gid = c + 6, gtype = NOT, gin = [b1]\<rparr>,
     \<lparr>gid = c + 7, gtype = NOT, gin = [b2]\<rparr>,
     \<lparr>gid = c + 8, gtype = NOT, gin = [b3]\<rparr>,
     \<lparr>gid = c + 9, gtype = AND, gin = [c + 1, c + 2]\<rparr>,
     \<lparr>gid = c + 10, gtype = AND, gin = [c + 3, c + 4]\<rparr>,
     \<lparr>gid = c + 11, gtype = AND, gin = [c + 9, c + 10]\<rparr>,
     \<lparr>gid = c + 12, gtype = AND, gin = [a3, c + 8]\<rparr>,
     \<lparr>gid = c + 13, gtype = AND, gin = [c + 1, a2]\<rparr>,
     \<lparr>gid = c + 14, gtype = AND, gin = [c + 13, c + 7]\<rparr>,
     \<lparr>gid = c + 15, gtype = OR, gin = [c + 12, c + 14]\<rparr>,
     \<lparr>gid = c + 16, gtype = AND, gin = [c + 1, c + 2]\<rparr>,
     \<lparr>gid = c + 17, gtype = AND, gin = [a1, c + 6]\<rparr>,
     \<lparr>gid = c + 18, gtype = AND, gin = [c + 16, c + 17]\<rparr>,
     \<lparr>gid = c + 19, gtype = OR, gin = [c + 15, c + 18]\<rparr>,
     \<lparr>gid = c + 20, gtype = AND, gin = [c + 1, c + 2]\<rparr>,
     \<lparr>gid = c + 21, gtype = AND, gin = [c + 20, c + 3]\<rparr>,
     \<lparr>gid = c + 22, gtype = AND, gin = [c + 21, a0]\<rparr>,
     \<lparr>gid = c + 23, gtype = AND, gin = [c + 22, c + 5]\<rparr>,
     \<lparr>gid = c + 24, gtype = OR, gin = [c + 19, c + 23]\<rparr>,
     \<lparr>gid = c + 25, gtype = OR, gin = [c + 24, c + 11]\<rparr>,
     \<lparr>gid = c + 26, gtype = NOT, gin = [c + 25]\<rparr>,
     \<lparr>gid = c + 27, gtype = OR, gin = [a3, b3]\<rparr>,
     \<lparr>gid = c + 28, gtype = AND, gin = [c + 25, a2]\<rparr>,
     \<lparr>gid = c + 29, gtype = AND, gin = [c + 26, b2]\<rparr>,
     \<lparr>gid = c + 30, gtype = OR, gin = [c + 28, c + 29]\<rparr>,
     \<lparr>gid = c + 31, gtype = AND, gin = [c + 25, a1]\<rparr>,
     \<lparr>gid = c + 32, gtype = AND, gin = [c + 26, b1]\<rparr>,
     \<lparr>gid = c + 33, gtype = OR, gin = [c + 31, c + 32]\<rparr>,
     \<lparr>gid = c + 34, gtype = AND, gin = [c + 25, a0]\<rparr>,
     \<lparr>gid = c + 35, gtype = AND, gin = [c + 26, b0]\<rparr>,
     \<lparr>gid = c + 36, gtype = OR, gin = [c + 34, c + 35]\<rparr>]"

subsection \<open>The blocks of the chain, by position\<close>

text \<open>
  Block \<open>j\<close> of the chain (counting from 0) starts with the counter at \<open>8 + 40 j\<close>:
  each iteration draws 36 gate ids and 4 input ids. Its first operand is the output of
  block \<open>j - 1\<close> (the wires 1 to 4 for block 0), its second operand the fresh input.
\<close>

definition wires_a :: "nat \<Rightarrow> int list" where
  "wires_a j =
     (if j = 0 then [1, 2, 3, 4]
      else [40 * int j - 5, 40 * int j - 2, 40 * int j + 1, 40 * int j + 4])"

definition wires_b :: "nat \<Rightarrow> int list" where
  "wires_b j = [40 * int j + 5, 40 * int j + 6, 40 * int j + 7, 40 * int j + 8]"

definition quad :: "int list \<Rightarrow> int \<times> int \<times> int \<times> int" where
  "quad ws = (ws ! 0, ws ! 1, ws ! 2, ws ! 3)"

definition block_of :: "nat \<Rightarrow> gate list" where
  "block_of j =
     block_gates (8 + 40 * int j) (wires_a j ! 0) (wires_a j ! 1) (wires_a j ! 2) (wires_a j ! 3)
       (wires_b j ! 0) (wires_b j ! 1) (wires_b j ! 2) (wires_b j ! 3)"

text \<open>
  The loop body with the outcome of the test of line 135 given by a predicate on the
  iteration, the flag \<^verbatim>\<open>alice\<close> that such a loop holds before iteration \<open>m\<close>, and the loop
  variables after \<open>m\<close> iterations.
\<close>

definition loop_body_sw :: "(nat \<Rightarrow> bool) \<Rightarrow> nat \<Rightarrow> chain_vars \<Rightarrow> chain_vars" where
  "loop_body_sw sw i v =
     (let (a3, a2, a1, a0) = cur_a v;
          (b3, b2, b1, b0) = cur_b v;
          (a, s) = circuit_block a3 a2 a1 a0 b3 b2 b1 b0 (self v);
          (b3, s) = get_next_id s;
          (b2, s) = get_next_id s;
          (b1, s) = get_next_id s;
          (b0, s) = get_next_id s;
          s = (if alice v then s\<lparr>inputs_alice := inputs_alice s @ [b3, b2, b1, b0]\<rparr>
               else s\<lparr>inputs_bob := inputs_bob s @ [b3, b2, b1, b0]\<rparr>);
          al = (if sw i then \<not> alice v else alice v)
      in \<lparr>cur_a = a, cur_b = (b3, b2, b1, b0), alice = al, self = s\<rparr>)"

fun flag_before :: "(nat \<Rightarrow> bool) \<Rightarrow> nat \<Rightarrow> bool" where
  "flag_before sw 0 = True"
| "flag_before sw (Suc i) = (if sw i then \<not> flag_before sw i else flag_before sw i)"

definition block_outs :: "nat \<Rightarrow> int list" where
  "block_outs j = [40 * int j + 35, 40 * int j + 38, 40 * int j + 41, 40 * int j + 44]"

definition chain_after :: "(nat \<Rightarrow> bool) \<Rightarrow> int \<Rightarrow> nat \<Rightarrow> chain_vars" where
  "chain_after sw k m =
     \<lparr>cur_a = quad (wires_a m), cur_b = quad (wires_b m), alice = flag_before sw m,
      self = \<lparr>bits = 4, set_size = k, gen = 8 + 40 * int m,
        inputs_alice =
          [1, 2, 3, 4] @ concat (map wires_b (filter (\<lambda>j. flag_before sw (j - 1)) [1..<Suc m])),
        inputs_bob =
          [5, 6, 7, 8] @ concat (map wires_b (filter (\<lambda>j. \<not> flag_before sw (j - 1)) [1..<Suc m])),
        outputs = concat (map block_outs [0..<m]),
        gates = concat (map block_of [0..<m])\<rparr>\<rparr>"

subsection \<open>Values of bit lists and well-formed gate lists\<close>

text \<open>The values of the consecutive 4-bit groups of a bit list.\<close>

fun group_values :: "bool list \<Rightarrow> nat list" where
  "group_values (b3 # b2 # b1 # b0 # rest) = bits_value [b3, b2, b1, b0] # group_values rest"
| "group_values _ = []"

text \<open>
  Every gate reads only wires that are defined when it is evaluated: the wires in
  \<open>known\<close>, or the output of a gate earlier in the list.
\<close>

fun wf_gates :: "int set \<Rightarrow> gate list \<Rightarrow> bool" where
  "wf_gates known [] = True"
| "wf_gates known (g # gs) = (set (gin g) \<subseteq> known \<and> wf_gates (insert (gid g) known) gs)"


text \<open>The comparison \<open>A \<ge> B\<close> as the block computes it, on the bits of the two operands.\<close>

definition a_ge_b :: "bool \<Rightarrow> bool \<Rightarrow> bool \<Rightarrow> bool \<Rightarrow> bool \<Rightarrow> bool \<Rightarrow> bool \<Rightarrow> bool \<Rightarrow> bool" where
  "a_ge_b p3 p2 p1 p0 q3 q2 q1 q0 =
     (((p3 \<and> \<not> q3) \<or> ((p3 = q3) \<and> p2 \<and> \<not> q2)
        \<or> ((p3 = q3) \<and> (p2 = q2) \<and> p1 \<and> \<not> q1)
        \<or> ((p3 = q3) \<and> (p2 = q2) \<and> (p1 = q1) \<and> p0 \<and> \<not> q0))
      \<or> ((p3 = q3) \<and> (p2 = q2) \<and> (p1 = q1) \<and> (p0 = q0)))"


subsection \<open>The synthesized circuit in closed form\<close>

text \<open>
  The test of line 135 for set size \<open>k\<close> (so \<open>n = 2 k\<close>), in true division as in the source
  and in integer division, and the circuit that the chaining loop gives for a switch
  predicate.
\<close>

definition sw_true :: "int \<Rightarrow> nat \<Rightarrow> bool" where
  "sw_true k i = (true_div (k * 2 - 2) (int i + 1) = 2)"

definition sw_floor :: "int \<Rightarrow> nat \<Rightarrow> bool" where
  "sw_floor k i = ((k * 2 - 2) div (int i + 1) = 2)"

definition entry :: "(nat \<Rightarrow> bool) \<Rightarrow> int \<Rightarrow> circuit_entry" where
  "entry sw k =
     (let m = nat (k * 2 - 2)
      in \<lparr>c_id = str_int 4 @ ''-bits MAX with '' @ str_int (k * 2) @ '' elements'',
          c_alice =
            [1, 2, 3, 4] @ concat (map wires_b (filter (\<lambda>j. flag_before sw (j - 1)) [1..<Suc m])),
          c_bob =
            [5, 6, 7, 8] @ concat (map wires_b (filter (\<lambda>j. \<not> flag_before sw (j - 1)) [1..<Suc m])),
          c_out = block_outs m,
          c_gates = concat (map block_of [0..<Suc m])\<rparr>)"

section \<open>Properties of the comparator block\<close>

lemma add_gate_eq:
  "add_gate t ins output s =
     (gen s + 1,
      s\<lparr>gen := gen s + 1,
        gates := gates s @ [\<lparr>gid = gen s + 1, gtype = t, gin = ins\<rparr>],
        outputs := (if output then outputs s @ [gen s + 1] else outputs s)\<rparr>)"
  by (simp add: add_gate_def get_next_id_def)

lemma circuit_block_eq:
  "circuit_block a3 a2 a1 a0 b3 b2 b1 b0 s =
     ((gen s + 27, gen s + 30, gen s + 33, gen s + 36),
      s\<lparr>gen := gen s + 36,
        gates := gates s @ block_gates (gen s) a3 a2 a1 a0 b3 b2 b1 b0,
        outputs := outputs s @ [gen s + 27, gen s + 30, gen s + 33, gen s + 36]\<rparr>)"
  by (simp add: circuit_block_def an_def nxor_def no_def orr_def add_gate_eq block_gates_def)

lemma loop_body_sw_eq:
  "loop_body_sw sw i v =
     (let c = gen (self v); s = self v in
      \<lparr>cur_a = (c + 27, c + 30, c + 33, c + 36),
       cur_b = (c + 37, c + 38, c + 39, c + 40),
       alice = (if sw i then \<not> alice v else alice v),
       self = s\<lparr>gen := c + 40,
         gates := gates s @ block_gates c (fst (cur_a v)) (fst (snd (cur_a v)))
            (fst (snd (snd (cur_a v)))) (snd (snd (snd (cur_a v))))
            (fst (cur_b v)) (fst (snd (cur_b v)))
            (fst (snd (snd (cur_b v)))) (snd (snd (snd (cur_b v)))),
         outputs := outputs s @ [c + 27, c + 30, c + 33, c + 36],
         inputs_alice := (if alice v then inputs_alice s @ [c + 37, c + 38, c + 39, c + 40]
                          else inputs_alice s),
         inputs_bob := (if alice v then inputs_bob s
                        else inputs_bob s @ [c + 37, c + 38, c + 39, c + 40])\<rparr>\<rparr>)"
  by (simp add: loop_body_sw_def circuit_block_eq get_next_id_def Let_def split_def)

lemma loop_body_is_sw: "loop_body n = loop_body_sw (\<lambda>i. true_div (n - 2) (int i + 1) = 2)"
  by (intro ext) (simp add: loop_body_def loop_body_sw_def)

lemma loop_body_floor_is_sw: "loop_body_floor n = loop_body_sw (\<lambda>i. (n - 2) div (int i + 1) = 2)"
  by (intro ext) (simp add: loop_body_floor_def loop_body_sw_def)

section \<open>The chaining loop in closed form\<close>

lemma chain_init_eq: "chain_init (init_circuit 4 k) = chain_after sw k 0"
  by (simp add: chain_init_def init_circuit_def chain_after_def wires_a_def wires_b_def quad_def)

lemma chain_step: "loop_body_sw sw m (chain_after sw k m) = chain_after sw k (Suc m)"
  by (simp add: loop_body_sw_eq chain_after_def Let_def quad_def wires_a_def wires_b_def
      block_of_def block_outs_def)

lemma chain_fold: "fold (loop_body_sw sw) [0..<m] (chain_init (init_circuit 4 k)) = chain_after sw k m"
  by (induction m) (simp_all add: chain_init_eq chain_step)

lemma eval_gates_other: "w \<notin> gid ` set gs \<Longrightarrow> eval_gates gs e w = e w"
  unfolding eval_gates_def
  by (induction gs arbitrary: e) (auto simp: eval_gate_def)

lemma eval_gates_append: "eval_gates (gs @ hs) e = eval_gates hs (eval_gates gs e)"
  by (simp add: eval_gates_def)

lemma block_outputs:
  assumes "a3 \<le> c" "a2 \<le> c" "a1 \<le> c" "a0 \<le> c" "b3 \<le> c" "b2 \<le> c" "b1 \<le> c" "b0 \<le> c"
  shows "map (eval_gates (block_gates c a3 a2 a1 a0 b3 b2 b1 b0) e) [c + 27, c + 30, c + 33, c + 36] =
     (let ge = a_ge_b (e a3) (e a2) (e a1) (e a0) (e b3) (e b2) (e b1) (e b0)
      in [e a3 \<or> e b3, (ge \<and> e a2) \<or> (\<not> ge \<and> e b2), (ge \<and> e a1) \<or> (\<not> ge \<and> e b1),
          (ge \<and> e a0) \<or> (\<not> ge \<and> e b0)])"
  using assms unfolding block_gates_def eval_gates_def eval_gate_def a_ge_b_def
  by (simp add: Let_def)

lemma a_ge_b_iff:
  "a_ge_b p3 p2 p1 p0 q3 q2 q1 q0 \<longleftrightarrow> bits_value [q3, q2, q1, q0] \<le> bits_value [p3, p2, p1, p0]"
  by (cases p3; cases p2; cases p1; cases p0; cases q3; cases q2; cases q1; cases q0;
      simp add: a_ge_b_def bits_value_def)

lemma mux_max:
  "bits_value [p3 \<or> q3,
      (a_ge_b p3 p2 p1 p0 q3 q2 q1 q0 \<and> p2) \<or> (\<not> a_ge_b p3 p2 p1 p0 q3 q2 q1 q0 \<and> q2),
      (a_ge_b p3 p2 p1 p0 q3 q2 q1 q0 \<and> p1) \<or> (\<not> a_ge_b p3 p2 p1 p0 q3 q2 q1 q0 \<and> q1),
      (a_ge_b p3 p2 p1 p0 q3 q2 q1 q0 \<and> p0) \<or> (\<not> a_ge_b p3 p2 p1 p0 q3 q2 q1 q0 \<and> q0)]
   = max (bits_value [p3, p2, p1, p0]) (bits_value [q3, q2, q1, q0])"
  by (cases p3; cases p2; cases p1; cases p0; cases q3; cases q2; cases q1; cases q0;
      simp add: a_ge_b_def bits_value_def)

lemma msb_mux: "(p3 \<or> q3) = ((a_ge_b p3 p2 p1 p0 q3 q2 q1 q0 \<and> p3) \<or> (\<not> a_ge_b p3 p2 p1 p0 q3 q2 q1 q0 \<and> q3))"
  by (cases p3; cases p2; cases p1; cases p0; cases q3; cases q2; cases q1; cases q0;
      simp add: a_ge_b_def)

lemma block_max:
  assumes "a3 \<le> c" "a2 \<le> c" "a1 \<le> c" "a0 \<le> c" "b3 \<le> c" "b2 \<le> c" "b1 \<le> c" "b0 \<le> c"
  shows "bits_value (map (eval_gates (block_gates c a3 a2 a1 a0 b3 b2 b1 b0) e)
            [c + 27, c + 30, c + 33, c + 36])
         = max (bits_value (map e [a3, a2, a1, a0])) (bits_value (map e [b3, b2, b1, b0]))"
  using block_outputs[OF assms, of e] mux_max[of "e a3" "e b3" "e a2" "e a1" "e a0" "e b2" "e b1" "e b0"]
  by (simp add: Let_def)

text \<open>
  C2. One call of \<open>circuit_block\<close> on operand wires below the counter appends gates
  that evaluate, on the four wires it returns, to the maximum of the two 4-bit operands,
  most significant bit first. The most significant bit is an OR gate of \<open>a3\<close> and \<open>b3\<close>,
  and has the value of the multiplexer form \<open>(x \<and> a3) \<or> (\<not> x \<and> b3)\<close> with
  \<open>x = (A > B) \<or> (A = B)\<close>; the three lower bits are that multiplexer.
\<close>

theorem circuit_block_computes_max:
  assumes "a3 \<le> gen s" "a2 \<le> gen s" "a1 \<le> gen s" "a0 \<le> gen s"
    and "b3 \<le> gen s" "b2 \<le> gen s" "b1 \<le> gen s" "b0 \<le> gen s"
  shows "case circuit_block a3 a2 a1 a0 b3 b2 b1 b0 s of
      ((z3, z2, z1, z0), s') \<Rightarrow>
        (let new_gates = drop (length (gates s)) (gates s');
             E = eval_gates new_gates e;
             A = bits_value (map e [a3, a2, a1, a0]);
             B = bits_value (map e [b3, b2, b1, b0]);
             x = (A > B \<or> A = B)
         in bits_value (map E [z3, z2, z1, z0]) = max A B
            \<and> \<lparr>gid = z3, gtype = OR, gin = [a3, b3]\<rparr> \<in> set new_gates
            \<and> E z3 = (e a3 \<or> e b3)
            \<and> E z3 = ((x \<and> e a3) \<or> (\<not> x \<and> e b3))
            \<and> E z2 = ((x \<and> e a2) \<or> (\<not> x \<and> e b2))
            \<and> E z1 = ((x \<and> e a1) \<or> (\<not> x \<and> e b1))
            \<and> E z0 = ((x \<and> e a0) \<or> (\<not> x \<and> e b0)))"
proof -
  let ?blk = "block_gates (gen s) a3 a2 a1 a0 b3 b2 b1 b0"
  let ?E = "eval_gates ?blk e"
  let ?ge = "a_ge_b (e a3) (e a2) (e a1) (e a0) (e b3) (e b2) (e b1) (e b0)"
  have outs: "map ?E [gen s + 27, gen s + 30, gen s + 33, gen s + 36] =
      [e a3 \<or> e b3, (?ge \<and> e a2) \<or> (\<not> ?ge \<and> e b2), (?ge \<and> e a1) \<or> (\<not> ?ge \<and> e b1),
       (?ge \<and> e a0) \<or> (\<not> ?ge \<and> e b0)]"
    using block_outputs[OF assms, of e] by (simp add: Let_def)
  have mx: "bits_value (map ?E [gen s + 27, gen s + 30, gen s + 33, gen s + 36])
      = max (bits_value (map e [a3, a2, a1, a0])) (bits_value (map e [b3, b2, b1, b0]))"
    by (rule block_max[OF assms])
  have ge: "?ge \<longleftrightarrow> (bits_value (map e [b3, b2, b1, b0]) < bits_value (map e [a3, a2, a1, a0])
      \<or> bits_value (map e [a3, a2, a1, a0]) = bits_value (map e [b3, b2, b1, b0]))"
    using a_ge_b_iff[of "e a3" "e a2" "e a1" "e a0" "e b3" "e b2" "e b1" "e b0"] by auto
  have msb: "(e a3 \<or> e b3) = ((?ge \<and> e a3) \<or> (\<not> ?ge \<and> e b3))"
    by (rule msb_mux)
  have mem: "\<lparr>gid = gen s + 27, gtype = OR, gin = [a3, b3]\<rparr> \<in> set ?blk"
    by (simp add: block_gates_def)
  from outs have z3: "?E (gen s + 27) = (e a3 \<or> e b3)"
    and z2: "?E (gen s + 30) = ((?ge \<and> e a2) \<or> (\<not> ?ge \<and> e b2))"
    and z1: "?E (gen s + 33) = ((?ge \<and> e a1) \<or> (\<not> ?ge \<and> e b1))"
    and z0: "?E (gen s + 36) = ((?ge \<and> e a0) \<or> (\<not> ?ge \<and> e b0))"
    by simp_all
  show ?thesis
    unfolding circuit_block_eq prod.case Let_def
    using mx mem z3 z2 z1 z0 msb ge by simp
qed

theorem circuit_block_computes_max_witness:
  "(1::int) \<le> gen (init_circuit 4 1) \<and> 2 \<le> gen (init_circuit 4 1)
   \<and> 3 \<le> gen (init_circuit 4 1) \<and> 4 \<le> gen (init_circuit 4 1)
   \<and> 5 \<le> gen (init_circuit 4 1) \<and> 6 \<le> gen (init_circuit 4 1)
   \<and> 7 \<le> gen (init_circuit 4 1) \<and> 8 \<le> gen (init_circuit 4 1)
   \<and> (case circuit_block 1 2 3 4 5 6 7 8 (init_circuit 4 1) of
      ((z3, z2, z1, z0), s') \<Rightarrow>
        (let new_gates = drop (length (gates (init_circuit 4 1))) (gates s');
             E = eval_gates new_gates (\<lambda>w::int. w = 1 \<or> w = 3 \<or> w = 6)
         in bits_value (map E [z3, z2, z1, z0]) = 10
            \<and> bits_value (map (\<lambda>w::int. w = 1 \<or> w = 3 \<or> w = 6) [1, 2, 3, 4]) = 10
            \<and> bits_value (map (\<lambda>w::int. w = 1 \<or> w = 3 \<or> w = 6) [5, 6, 7, 8]) = 4
            \<and> \<lparr>gid = z3, gtype = OR, gin = [1, 5]\<rparr> \<in> set new_gates
            \<and> map E [z3, z2, z1, z0] = [True, False, True, False]))"
proof -
  have g: "gen (init_circuit 4 1) = 8"
    by (simp add: init_circuit_def)
  have va: "bits_value [True, False, True, False] = 10"
    and vb: "bits_value [False, True, False, False] = 4"
    by (simp_all add: bits_value_def)
  show ?thesis
    using circuit_block_computes_max[of 1 "init_circuit 4 1" 2 3 4 5 6 7 8
        "\<lambda>w::int. w = 1 \<or> w = 3 \<or> w = 6"]
    unfolding g by (simp add: va vb split: prod.splits)
qed


section \<open>The synthesized circuit\<close>

lemma true_div_eq_2: "0 \<le> i \<Longrightarrow> (true_div x (i + 1) = 2) \<longleftrightarrow> (x = 2 * (i + 1))"
proof -
  assume "0 \<le> i"
  then have nz: "(of_int (i + 1) :: rat) \<noteq> 0" by simp
  have "(true_div x (i + 1) = 2) \<longleftrightarrow> ((of_int x :: rat) = 2 * of_int (i + 1))"
    unfolding true_div_def using nz by (simp add: divide_eq_eq)
  also have "\<dots> \<longleftrightarrow> ((of_int x :: rat) = of_int (2 * (i + 1)))" by simp
  also have "\<dots> \<longleftrightarrow> (x = 2 * (i + 1))" by (simp only: of_int_eq_iff)
  finally show ?thesis .
qed

lemma sw_true_iff: "sw_true k i \<longleftrightarrow> int i + 1 = k - 1"
  unfolding sw_true_def using true_div_eq_2[of "int i" "k * 2 - 2"] by auto

lemma flag_true: "1 \<le> k \<Longrightarrow> flag_before (sw_true k) j = (k = 1 \<or> int j < k - 1)"
  by (induction j) (auto simp: sw_true_iff)

lemma filter_less_upt: "filter (\<lambda>j. j < K) [a..<b] = [a..<min K b]"
proof (induction b)
  case 0
  show ?case by simp
next
  case (Suc b)
  consider "Suc b \<le> K" | "K \<le> b" by linarith
  then show ?case
  proof cases
    case 1
    then show ?thesis using Suc by (auto simp: min_def)
  next
    case 2
    then show ?thesis using Suc by (auto simp: min_def)
  qed
qed

lemma filter_not_less_upt: "filter (\<lambda>j. \<not> j < K) [a..<b] = [max a K..<b]"
proof (induction b)
  case 0
  show ?case by simp
next
  case (Suc b)
  consider "K \<le> b" | "b < K" by linarith
  then show ?case
  proof cases
    case 1
    then show ?thesis using Suc by (auto simp: max_def)
  next
    case 2
    then show ?thesis using Suc by (auto simp: max_def)
  qed
qed

lemma last4_append4: "last4 (xs @ [a, b, c, d]) = [a, b, c, d]"
  by (simp add: last4_def)

lemma assemble_sw:
  "(let v = fold (loop_body_sw sw) [0..<m] (chain_init (init_circuit 4 k));
        (a3, a2, a1, a0) = cur_a v;
        (b3, b2, b1, b0) = cur_b v
    in snd (circuit_block a3 a2 a1 a0 b3 b2 b1 b0 (self v)))
   = (self (chain_after sw k m))
       \<lparr>gen := 8 + 40 * int m + 36,
        gates := concat (map block_of [0..<Suc m]),
        outputs := concat (map block_outs [0..<Suc m])\<rparr>"
  by (simp add: chain_fold circuit_block_eq chain_after_def quad_def block_of_def block_outs_def
      wires_a_def wires_b_def Let_def)

lemma loop_body_sw_true: "loop_body (k * 2) = loop_body_sw (sw_true k)"
  unfolding loop_body_is_sw sw_true_def ..

lemma loop_body_sw_floor: "loop_body_floor (k * 2) = loop_body_sw (sw_floor k)"
  unfolding loop_body_floor_is_sw sw_floor_def ..

lemma set_size_init: "set_size (init_circuit b k) = k"
  by (simp add: init_circuit_def)

lemma assemble_true:
  "assemble (init_circuit 4 k) =
     (self (chain_after (sw_true k) k (nat (k * 2 - 2))))
       \<lparr>gen := 8 + 40 * int (nat (k * 2 - 2)) + 36,
        gates := concat (map block_of [0..<Suc (nat (k * 2 - 2))]),
        outputs := concat (map block_outs [0..<Suc (nat (k * 2 - 2))])\<rparr>"
  using assemble_sw[of "sw_true k" "nat (k * 2 - 2)" k]
  by (simp add: assemble_def set_size_init loop_body_sw_true Let_def)

lemma assemble_floor_eq:
  "assemble_floor (init_circuit 4 k) =
     (self (chain_after (sw_floor k) k (nat (k * 2 - 2))))
       \<lparr>gen := 8 + 40 * int (nat (k * 2 - 2)) + 36,
        gates := concat (map block_of [0..<Suc (nat (k * 2 - 2))]),
        outputs := concat (map block_outs [0..<Suc (nat (k * 2 - 2))])\<rparr>"
  using assemble_sw[of "sw_floor k" "nat (k * 2 - 2)" k]
  by (simp add: assemble_floor_def set_size_init loop_body_sw_floor Let_def)

lemma last4_outs: "last4 (concat (map block_outs [0..<Suc m])) = block_outs m"
  by (simp add: block_outs_def last4_append4)

lemma synthesized_entry: "synthesized 4 k = entry (sw_true k) k"
  by (simp add: synthesized_def assemble_true json_format_def chain_after_def entry_def Let_def
      last4_outs del: upt_Suc)

lemma synthesized_floor_entry: "synthesized_floor 4 k = entry (sw_floor k) k"
  by (simp add: synthesized_floor_def assemble_floor_eq json_format_def chain_after_def entry_def
      Let_def last4_outs del: upt_Suc)

lemma alice_filter_true:
  assumes "1 \<le> k"
  shows "filter (\<lambda>j. flag_before (sw_true k) (j - 1)) [1..<Suc (nat (k * 2 - 2))] = [1..<nat k]"
proof -
  have "filter (\<lambda>j. flag_before (sw_true k) (j - 1)) [1..<Suc (nat (k * 2 - 2))]
      = filter (\<lambda>j. j < nat k) [1..<Suc (nat (k * 2 - 2))]"
    by (rule filter_cong) (use assms in \<open>auto simp: flag_true\<close>)
  also have "\<dots> = [1..<min (nat k) (Suc (nat (k * 2 - 2)))]"
    by (rule filter_less_upt)
  also have "min (nat k) (Suc (nat (k * 2 - 2))) = nat k"
    using assms by auto
  finally show ?thesis .
qed

lemma bob_filter_true:
  assumes "1 \<le> k"
  shows "filter (\<lambda>j. \<not> flag_before (sw_true k) (j - 1)) [1..<Suc (nat (k * 2 - 2))]
     = [nat k..<Suc (nat (k * 2 - 2))]"
proof -
  have "filter (\<lambda>j. \<not> flag_before (sw_true k) (j - 1)) [1..<Suc (nat (k * 2 - 2))]
      = filter (\<lambda>j. \<not> j < nat k) [1..<Suc (nat (k * 2 - 2))]"
    by (rule filter_cong) (use assms in \<open>auto simp: flag_true\<close>)
  also have "\<dots> = [max 1 (nat k)..<Suc (nat (k * 2 - 2))]"
    by (rule filter_not_less_upt)
  also have "max 1 (nat k) = nat k"
    using assms by auto
  finally show ?thesis .
qed

lemma synthesized_closed:
  assumes "1 \<le> k"
  shows "synthesized 4 k =
     \<lparr>c_id = str_int 4 @ ''-bits MAX with '' @ str_int (k * 2) @ '' elements'',
      c_alice = [1, 2, 3, 4] @ concat (map wires_b [1..<nat k]),
      c_bob = [5, 6, 7, 8] @ concat (map wires_b [nat k..<nat (2 * k - 1)]),
      c_out = block_outs (nat (2 * k - 2)),
      c_gates = concat (map block_of [0..<nat (2 * k - 1)])\<rparr>"
proof -
  have e1: "Suc (nat (2 * k - 2)) = nat (2 * k - 1)" and e2: "nat (k * 2 - 2) = nat (2 * k - 2)"
    using assms by auto
  have "synthesized 4 k =
     \<lparr>c_id = str_int 4 @ ''-bits MAX with '' @ str_int (k * 2) @ '' elements'',
      c_alice = [1, 2, 3, 4] @ concat (map wires_b [1..<nat k]),
      c_bob = [5, 6, 7, 8] @ concat (map wires_b [nat k..<Suc (nat (k * 2 - 2))]),
      c_out = block_outs (nat (k * 2 - 2)),
      c_gates = concat (map block_of [0..<Suc (nat (k * 2 - 2))])\<rparr>"
    unfolding synthesized_entry entry_def Let_def alice_filter_true[OF assms]
      bob_filter_true[OF assms] ..
  then show ?thesis
    unfolding e1 e2 .
qed


subsection \<open>The input wires\<close>

lemma length_concat_wires_b: "length (concat (map wires_b xs)) = 4 * length xs"
  by (induction xs) (simp_all add: wires_b_def)

lemma mem_wires_b: "w \<in> set (wires_b j) \<longleftrightarrow> 40 * int j + 5 \<le> w \<and> w \<le> 40 * int j + 8"
  by (simp add: wires_b_def, arith)

lemma in_concat_wires_b:
  "w \<in> set (concat (map wires_b xs)) \<longleftrightarrow> (\<exists>j\<in>set xs. 40 * int j + 5 \<le> w \<and> w \<le> 40 * int j + 8)"
  by (simp add: mem_wires_b)

lemma wires_b_inj:
  assumes "40 * int i + 5 \<le> w" "w \<le> 40 * int i + 8" "40 * int j + 5 \<le> w" "w \<le> 40 * int j + 8"
  shows "i = j"
  using assms by presburger


text \<open>
  C4. For every set size \<open>k \<ge> 1\<close> (in particular for \<open>1 \<le> k \<le> 16\<close>) the input-wire
  lists of Alice and Bob of the synthesized circuit are disjoint, and each has exactly
  \<open>4 k\<close> wires: each party holds \<open>k\<close> four-bit values.
\<close>

theorem inputs_disjoint_and_sized:
  assumes "1 \<le> k"
  shows "set (c_alice (synthesized 4 k)) \<inter> set (c_bob (synthesized 4 k)) = {}
     \<and> int (length (c_alice (synthesized 4 k))) = 4 * k
     \<and> int (length (c_bob (synthesized 4 k))) = 4 * k"
proof -
  let ?A = "[1, 2, 3, 4] @ concat (map wires_b [1..<nat k])"
  let ?B = "[5, 6, 7, 8] @ concat (map wires_b [nat k..<nat (2 * k - 1)])"
  have a: "c_alice (synthesized 4 k) = ?A" and b: "c_bob (synthesized 4 k) = ?B"
    by (simp_all add: synthesized_closed[OF assms])
  have la: "int (length ?A) = 4 * k"
    using assms by (simp add: length_concat_wires_b)
  have lb: "int (length ?B) = 4 * k"
    using assms by (simp add: length_concat_wires_b)
  have dj: "set ?A \<inter> set ?B = {}"
  proof (rule ccontr)
    assume "set ?A \<inter> set ?B \<noteq> {}"
    then obtain w where wa: "w \<in> set ?A" and wb: "w \<in> set ?B" by blast
    from wa consider "1 \<le> w \<and> w \<le> 4"
      | i where "1 \<le> i" "i < nat k" "40 * int i + 5 \<le> w" "w \<le> 40 * int i + 8"
      by (auto simp: in_concat_wires_b mem_wires_b)
    then show False
    proof cases
      case 1
      with wb show False by (auto simp: in_concat_wires_b mem_wires_b)
    next
      case (2 i)
      from wb consider "5 \<le> w \<and> w \<le> 8"
        | j where "nat k \<le> j" "40 * int j + 5 \<le> w" "w \<le> 40 * int j + 8"
        by (auto simp: in_concat_wires_b mem_wires_b)
      then show False
      proof cases
        case 1
        with 2 show False by auto
      next
        case (2 j)
        with \<open>40 * int i + 5 \<le> w\<close> \<open>w \<le> 40 * int i + 8\<close> have "i = j"
          by (intro wires_b_inj)
        with 2 \<open>i < nat k\<close> show False by simp
      qed
    qed
  qed
  show ?thesis unfolding a b using dj la lb by blast
qed

theorem inputs_disjoint_and_sized_witness:
  "(1::int) \<le> 2
   \<and> set (c_alice (synthesized 4 2)) \<inter> set (c_bob (synthesized 4 2)) = {}
   \<and> int (length (c_alice (synthesized 4 2))) = 4 * 2
   \<and> int (length (c_bob (synthesized 4 2))) = 4 * 2"
  using inputs_disjoint_and_sized[of 2] by simp

end
